theory Spec2Isabelle
  imports Main "HOL-Library.Word" "HOL-Library.Signed_Division"
begin

section \<open>Upgrade checks of the Ceph client (pkg/daemon/ceph/client/upgrade.go)\<close>

text \<open>
  A shallow embedding of \<^verbatim>\<open>upgrade.go\<close>. The functions of that file talk to a Ceph
  cluster through collaborators that are not part of the file: running a \<^verbatim>\<open>ceph\<close>
  command, decoding JSON, parsing a version string, reading the OSD tree and the OSD
  list, probing a filesystem's MDS daemons, and sleeping between retries. Every such
  call is recorded in a history, and what the collaborator answers is an arbitrary
  function of the history so far, so that a cluster whose answers change over time is
  covered. Calls of the logger have no influence on any result and are left out.
\<close>

subsection \<open>Data\<close>

text \<open>
  Errors of \<^verbatim>\<open>github.com/pkg/errors\<close>: \<^verbatim>\<open>errors.New(msg)\<close> and
  \<^verbatim>\<open>errors.Errorf\<close> build a fresh error from a message,
  \<^verbatim>\<open>errors.Wrap(err, msg)\<close> and \<^verbatim>\<open>errors.Wrapf\<close> put a message around a cause.
\<close>

datatype error = New string | Wrap error string

text \<open>\<^verbatim>\<open>time.Duration\<close> is an \<^verbatim>\<open>int64\<close> count of nanoseconds.\<close>

type_synonym Duration = "64 word"

definition Second :: Duration where
  "Second = 1000000000"

definition defaultMaxRetries :: "64 word" where
  "defaultMaxRetries = 10"

definition defaultRetryDelay :: Duration where
  "defaultRetryDelay = 60 * Second"

definition defaultOSDRetryDelay :: Duration where
  "defaultOSDRetryDelay = 10 * Second"

text \<open>
  A Go \<^verbatim>\<open>map[string]int\<close>, held as the list of its entries in the order in which the
  \<^verbatim>\<open>range\<close> statement of the run at hand enumerates them. Go leaves that order
  unspecified, so two lists with the same entries in a different order are two possible
  runs on the same map. \<^verbatim>\<open>len\<close> is the length of the list. The counts are Go
  \<^verbatim>\<open>int\<close>s that the code only compares with 3.
\<close>

type_synonym gomap = "(string \<times> int) list"

record CephDaemonsVersions =
  Mon :: gomap
  Mgr :: gomap
  Osd :: gomap
  Rgw :: gomap
  Mds :: gomap
  RbdMirror :: gomap
  Overall :: gomap

text \<open>
  Modelled from the spec: the structured version \<^verbatim>\<open>cephver.CephVersion\<close>, whose
  declaration is not in this file. Section 3 describes it as major, minor and patch
  numbers with a release codename. The Go zero value of a struct has every number 0 and
  every string empty.
\<close>

record CephVersion =
  Major :: int
  Minor :: int
  Patch :: int
  Codename :: string

definition zeroCephVersion :: CephVersion where
  "zeroCephVersion = \<lparr>Major = 0, Minor = 0, Patch = 0, Codename = []\<rparr>"

text \<open>
  \<^verbatim>\<open>ClusterInfo\<close>: the only field that \<^verbatim>\<open>upgrade.go\<close> reads is the configured OSD
  upgrade timeout.
\<close>

record ClusterInfo =
  OsdUpgradeTimeout :: Duration

text \<open>
  The OSD tree as \<^verbatim>\<open>upgrade.go\<close> uses it: \<^verbatim>\<open>Nodes\<close> is a slice that may be
  \<^verbatim>\<open>nil\<close> (here \<open>None\<close>), each node has a type and the list of its children, and
  \<^verbatim>\<open>Stray\<close> is a slice of which only the length is read.
\<close>

record OsdNode =
  Type :: string
  Children :: "int list"

record OsdTree =
  Nodes :: "OsdNode list option"
  Stray :: "int list"

subsection \<open>The cluster and the history of calls\<close>

datatype call =
    Command "string list"
  | HostTreeCall
  | OsdListNumCall
  | MdsActiveOrStandbyReplayCall string
  | Sleep Duration

type_synonym world = "call list"

text \<open>
  The collaborators. \<open>Run\<close> is \<^verbatim>\<open>NewCephCommand(context, clusterInfo, args).Run()\<close>,
  which returns the output buffer and an error that may be \<^verbatim>\<open>nil\<close>; \<open>Unmarshal\<close> is
  \<^verbatim>\<open>json.Unmarshal\<close> into a \<^verbatim>\<open>CephDaemonsVersions\<close>; the others carry the name
  of the Go function they stand for.
\<close>

record env =
  Run :: "world \<Rightarrow> string list \<Rightarrow> string \<times> error option"
  Unmarshal :: "string \<Rightarrow> error + CephDaemonsVersions"
  ExtractCephVersion :: "string \<Rightarrow> error + CephVersion"
  HostTree :: "world \<Rightarrow> error + OsdTree"
  OsdListNum :: "world \<Rightarrow> error + int list"
  MdsActiveOrStandbyReplay :: "world \<Rightarrow> string \<Rightarrow> error option"

definition run :: "env \<Rightarrow> string list \<Rightarrow> world \<Rightarrow> (string \<times> error option) \<times> world" where
  "run E args w = (Run E w args, w @ [Command args])"

definition hostTree :: "env \<Rightarrow> world \<Rightarrow> (error + OsdTree) \<times> world" where
  "hostTree E w = (HostTree E w, w @ [HostTreeCall])"

definition osdListNum :: "env \<Rightarrow> world \<Rightarrow> (error + int list) \<times> world" where
  "osdListNum E w = (OsdListNum E w, w @ [OsdListNumCall])"

definition mdsActiveOrStandbyReplay :: "env \<Rightarrow> string \<Rightarrow> world \<Rightarrow> error option \<times> world" where
  "mdsActiveOrStandbyReplay E fsName w =
     (MdsActiveOrStandbyReplay E w fsName, w @ [MdsActiveOrStandbyReplayCall fsName])"

definition sleep :: "Duration \<Rightarrow> world \<Rightarrow> world" where
  "sleep d w = w @ [Sleep d]"

subsection \<open>Retry policy\<close>

text \<open>
  Go's \<^verbatim>\<open>/\<close> on \<^verbatim>\<open>int64\<close>: the quotient of the signed values, truncated towards
  zero and wrapped to 64 bits. Go panics on a zero divisor; the only divisor in this
  file is the constant \<^verbatim>\<open>defaultOSDRetryDelay\<close>.
\<close>

definition div_int64 :: "64 word \<Rightarrow> 64 word \<Rightarrow> 64 word" where
  "div_int64 a b = word_of_int (sint a sdiv sint b)"

text \<open>
  \<^verbatim>\<open>getRetryConfig\<close>. The conversion of the quotient to \<^verbatim>\<open>int\<close> keeps the value
  on a 64-bit platform.
\<close>

definition getRetryConfig :: "ClusterInfo \<Rightarrow> string \<Rightarrow> 64 word \<times> Duration" where
  "getRetryConfig clusterInfo daemonType =
     (if daemonType = ''osd'' then
        (div_int64 (OsdUpgradeTimeout clusterInfo) defaultOSDRetryDelay, defaultOSDRetryDelay)
      else if daemonType = ''mds'' then (defaultMaxRetries, 15 * Second)
      else (defaultMaxRetries, defaultRetryDelay))"

subsection \<open>Version inventory\<close>

definition daemonNoCheck :: "string list" where
  "daemonNoCheck = [''mgr'', ''rgw'', ''rbd-mirror'', ''nfs'']"

fun StringInSlice :: "string \<Rightarrow> string list \<Rightarrow> bool" where
  "StringInSlice a [] = False"
| "StringInSlice a (b # list) = (if b = a then True else StringInSlice a list)"

definition daemonMapEntry :: "CephDaemonsVersions \<Rightarrow> string \<Rightarrow> error + gomap" where
  "daemonMapEntry versions daemonType =
     (if daemonType = ''mon'' then Inr (Mon versions)
      else if daemonType = ''mgr'' then Inr (Mgr versions)
      else if daemonType = ''mds'' then Inr (Mds versions)
      else if daemonType = ''osd'' then Inr (Osd versions)
      else if daemonType = ''rgw'' then Inr (Rgw versions)
      else if daemonType = ''mirror'' then Inr (RbdMirror versions)
      else Inl (New (''invalid daemonType '' @ daemonType)))"

definition getAllCephDaemonVersionsString :: "env \<Rightarrow> world \<Rightarrow> (error + string) \<times> world" where
  "getAllCephDaemonVersionsString E w =
     (case run E [''versions''] w of
        ((buf, Some err), w') \<Rightarrow>
          (Inl (Wrap err (''failed to run 'ceph versions'. '' @ buf)), w')
      | ((buf, None), w') \<Rightarrow> (Inr buf, w'))"

definition GetAllCephDaemonVersions :: "env \<Rightarrow> world \<Rightarrow> (error + CephDaemonsVersions) \<times> world" where
  "GetAllCephDaemonVersions E w =
     (case getAllCephDaemonVersionsString E w of
        (Inl err, w') \<Rightarrow> (Inl err, w')
      | (Inr output, w') \<Rightarrow>
          (case Unmarshal E output of
             Inl err \<Rightarrow> (Inl (Wrap err ''failed to retrieve ceph versions results''), w')
           | Inr cephVersionsResult \<Rightarrow> (Inr cephVersionsResult, w')))"

text \<open>
  \<^verbatim>\<open>LeastUptodateDaemonVersion\<close>. The loop over the map breaks after its first
  iteration, so it looks at the first entry enumerated and at nothing else; over an
  empty map its body does not run and \<^verbatim>\<open>vv\<close> keeps its zero value.
\<close>

definition LeastUptodateDaemonVersion :: "env \<Rightarrow> string \<Rightarrow> world \<Rightarrow> (error + CephVersion) \<times> world" where
  "LeastUptodateDaemonVersion E daemonType w =
     (case GetAllCephDaemonVersions E w of
        (Inl err, w') \<Rightarrow> (Inl (Wrap err ''failed to get ceph daemons versions''), w')
      | (Inr versions, w') \<Rightarrow>
          (case daemonMapEntry versions daemonType of
             Inl err \<Rightarrow> (Inl (Wrap err ''failed to find daemon map entry''), w')
           | Inr r \<Rightarrow>
               (case r of
                  [] \<Rightarrow> (Inr zeroCephVersion, w')
                | (v, _) # _ \<Rightarrow>
                    (case ExtractCephVersion E v of
                       Inl err \<Rightarrow> (Inl (Wrap err ''failed to extract ceph version''), w')
                     | Inr version \<Rightarrow> (Inr version, w')))))"

definition findFSName :: "string \<Rightarrow> string" where
  "findFSName deployment =
     (if take (length ''rook-ceph-mds-'') deployment = ''rook-ceph-mds-''
      then drop (length ''rook-ceph-mds-'') deployment else deployment)"

subsection \<open>Topology\<close>

text \<open>The elements of a slice that may be \<^verbatim>\<open>nil\<close>; \<^verbatim>\<open>len\<close> of a nil slice is 0.\<close>

fun elems :: "'a list option \<Rightarrow> 'a list" where
  "elems None = []"
| "elems (Some xs) = xs"

text \<open>
  The loop of \<^verbatim>\<open>buildHostListFromTree\<close>: \<^verbatim>\<open>append\<close> to a nil slice makes a slice
  that is not nil, and a slice nothing was appended to stays nil.
\<close>

fun appendHosts :: "OsdNode list \<Rightarrow> OsdNode list option \<Rightarrow> OsdNode list option" where
  "appendHosts [] acc = acc"
| "appendHosts (t # ts) acc =
     appendHosts ts (if Type t = ''host'' then Some (elems acc @ [t]) else acc)"

definition buildHostListFromTree :: "OsdTree \<Rightarrow> error + OsdTree" where
  "buildHostListFromTree tree =
     (case Nodes tree of
        None \<Rightarrow> Inl (New ''osd tree not populated, missing 'nodes' field'')
      | Some nodes \<Rightarrow> Inr \<lparr>Nodes = appendHosts nodes None, Stray = []\<rparr>)"

definition allOSDsSameHost :: "env \<Rightarrow> world \<Rightarrow> (error + bool) \<times> world" where
  "allOSDsSameHost E w =
     (case hostTree E w of
        (Inl err, w1) \<Rightarrow> (Inl (Wrap err ''failed to get the osd tree''), w1)
      | (Inr tree, w1) \<Rightarrow>
          (case osdListNum E w1 of
             (Inl err, w2) \<Rightarrow> (Inl (Wrap err ''failed to get the osd list''), w2)
           | (Inr osds, w2) \<Rightarrow>
               (case buildHostListFromTree tree of
                  Inl err \<Rightarrow> (Inl (Wrap err ''failed to build osd tree''), w2)
                | Inr hostOsdTree \<Rightarrow>
                    (let hostOsdNodes = length (elems (Nodes hostOsdTree)) in
                     if hostOsdNodes = 0 then (Inl (New ''no host in crush map yet?''), w2)
                     else if hostOsdNodes = 1 \<and>
                             int (length (Children (elems (Nodes hostOsdTree) ! 0))) =
                               int (length osds) - int (length (Stray tree))
                     then (Inr True, w2)
                     else (Inr False, w2)))))"

definition osdDoNothing :: "env \<Rightarrow> world \<Rightarrow> bool \<times> world" where
  "osdDoNothing E w =
     (case osdListNum E w of
        (Inl err, w1) \<Rightarrow> (False, w1)
      | (Inr osds, w1) \<Rightarrow>
          if length osds < 3 then (True, w1)
          else (case allOSDsSameHost E w1 of
                  (Inl err, w2) \<Rightarrow> (False, w2)
                | (Inr aio, w2) \<Rightarrow> if aio then (True, w2) else (False, w2)))"

subsection \<open>Retrying\<close>

text \<open>
  Modelled from the spec: the generic bounded retry primitive \<^verbatim>\<open>util.Retry\<close>, which
  is not in this file. Section 6 gives its contract: (attempts, delay, probe-function)
  yields nil on first success or the last error after exhausting attempts; section 4.4
  adds that it sleeps the configured delay between attempts. The probe runs once in any
  case, so that there is a last error to return; \<open>retryLoop n\<close> has \<open>n\<close> further
  attempts left after the one it makes.
\<close>

fun retryLoop ::
  "nat \<Rightarrow> Duration \<Rightarrow> (world \<Rightarrow> error option \<times> world) \<Rightarrow> world \<Rightarrow> error option \<times> world" where
  "retryLoop 0 delay f w = f w"
| "retryLoop (Suc n) delay f w =
     (case f w of
        (None, w') \<Rightarrow> (None, w')
      | (Some err, w') \<Rightarrow> retryLoop n delay f (sleep delay w'))"

definition Retry ::
  "64 word \<Rightarrow> Duration \<Rightarrow> (world \<Rightarrow> error option \<times> world) \<Rightarrow> world \<Rightarrow> error option \<times> world" where
  "Retry maxRetries delay f w = retryLoop (nat (sint maxRetries) - 1) delay f w"

subsection \<open>The decisions\<close>

definition okToStopDaemon :: "env \<Rightarrow> string \<Rightarrow> string \<Rightarrow> string \<Rightarrow> world \<Rightarrow> error option \<times> world" where
  "okToStopDaemon E deployment daemonType daemonName w =
     (if \<not> StringInSlice daemonType daemonNoCheck then
        (case run E [daemonType, ''ok-to-stop'', daemonName] w of
           ((buf, Some err), w') \<Rightarrow>
             (Some (Wrap err (''deployment '' @ deployment @ '' cannot be stopped'')), w')
         | ((buf, None), w') \<Rightarrow> (None, w'))
      else (None, w))"

text \<open>The part of \<^verbatim>\<open>OkToStop\<close> after the \<^verbatim>\<open>switch\<close>: the retry loop around the probe.\<close>

definition okToStopRetry ::
  "env \<Rightarrow> 64 word \<Rightarrow> Duration \<Rightarrow> string \<Rightarrow> string \<Rightarrow> string \<Rightarrow> world \<Rightarrow> error option \<times> world" where
  "okToStopRetry E okToStopRetries okToStopDelay deployment daemonType daemonName w =
     (case Retry okToStopRetries okToStopDelay
             (okToStopDaemon E deployment daemonType daemonName) w of
        (Some err, w') \<Rightarrow>
          (Some (Wrap err (''failed to check if '' @ deployment @ '' was ok to stop'')), w')
      | (None, w') \<Rightarrow> (None, w'))"

text \<open>
  \<^verbatim>\<open>OkToStop\<close>. The loop over \<^verbatim>\<open>versions.Mon\<close> returns nil at the first entry whose
  count is below 3 and otherwise runs to its end.
\<close>

definition OkToStop ::
  "env \<Rightarrow> ClusterInfo \<Rightarrow> string \<Rightarrow> string \<Rightarrow> string \<Rightarrow> world \<Rightarrow> error option \<times> world" where
  "OkToStop E clusterInfo deployment daemonType daemonName w =
     (case getRetryConfig clusterInfo daemonType of
        (okToStopRetries, okToStopDelay) \<Rightarrow>
          (case GetAllCephDaemonVersions E w of
             (Inl err, w1) \<Rightarrow> (Some (Wrap err ''failed to get ceph daemons versions''), w1)
           | (Inr versions, w1) \<Rightarrow>
               if daemonType = ''mon'' then
                 if length (Mon versions) = 1 \<and>
                    list_ex (\<lambda>(_, monCount). monCount < 3) (Mon versions)
                 then (None, w1)
                 else okToStopRetry E okToStopRetries okToStopDelay
                        deployment daemonType daemonName w1
               else if daemonType = ''osd'' then
                 (case osdDoNothing E w1 of
                    (True, w2) \<Rightarrow> (None, w2)
                  | (False, w2) \<Rightarrow>
                      okToStopRetry E okToStopRetries okToStopDelay
                        deployment daemonType daemonName w2)
               else okToStopRetry E okToStopRetries okToStopDelay
                      deployment daemonType daemonName w1))"

definition okToContinueMDSDaemon ::
  "env \<Rightarrow> ClusterInfo \<Rightarrow> string \<Rightarrow> string \<Rightarrow> string \<Rightarrow> world \<Rightarrow> error option \<times> world" where
  "okToContinueMDSDaemon E clusterInfo deployment daemonType daemonName w =
     (case getRetryConfig clusterInfo ''mds'' of
        (retries, delay) \<Rightarrow>
          Retry retries delay (mdsActiveOrStandbyReplay E (findFSName deployment)) w)"

definition OkToContinue ::
  "env \<Rightarrow> ClusterInfo \<Rightarrow> string \<Rightarrow> string \<Rightarrow> string \<Rightarrow> world \<Rightarrow> error option \<times> world" where
  "OkToContinue E clusterInfo deployment daemonType daemonName w =
     (if daemonType = ''mds'' then
        (case okToContinueMDSDaemon E clusterInfo deployment daemonType daemonName w of
           (Some err, w') \<Rightarrow>
             (Some (Wrap err (''failed to check if '' @ deployment @ '' was ok to continue'')), w')
         | (None, w') \<Rightarrow> (None, w'))
      else (None, w))"

subsection \<open>Example clusters\<close>

text \<open>
  Concrete collaborators on which the functions above are evaluated. The two version
  strings are those of the comment above \<^verbatim>\<open>LeastUptodateDaemonVersion\<close>; the example
  parser knows exactly these two.
\<close>

definition mimicVersion :: string where
  "mimicVersion = ''ceph version 13.2.5 (cbff874f9007f1869bfd3821b7e33b2a6ffd4988) mimic (stable)''"

definition nautilusVersion :: string where
  "nautilusVersion = ''ceph version 14.2.0 (3a54b2b6d167d4a2a19e003a705696d4fe619afc) nautilus (stable)''"

definition exampleExtract :: "string \<Rightarrow> error + CephVersion" where
  "exampleExtract v =
     (if v = mimicVersion then Inr \<lparr>Major = 13, Minor = 2, Patch = 5, Codename = ''mimic''\<rparr>
      else if v = nautilusVersion then
        Inr \<lparr>Major = 14, Minor = 2, Patch = 0, Codename = ''nautilus''\<rparr>
      else Inl (New ''failed to parse version''))"

definition noVersions :: CephDaemonsVersions where
  "noVersions = \<lparr>Mon = [], Mgr = [], Osd = [], Rgw = [], Mds = [], RbdMirror = [], Overall = []\<rparr>"

text \<open>
  A cluster in which every command succeeds with empty output, the inventory decodes to
  \<open>versions\<close>, the OSD tree is \<open>tree\<close>, the OSD list is \<open>osds\<close>, and the MDS probe
  reports a filesystem whose name is in \<open>healthy\<close> as active and any other as not.
\<close>

definition exampleCluster ::
  "CephDaemonsVersions \<Rightarrow> OsdTree \<Rightarrow> int list \<Rightarrow> string list \<Rightarrow> env" where
  "exampleCluster versions tree osds healthy =
     \<lparr>Run = (\<lambda>w args. ([], None)),
      Unmarshal = (\<lambda>output. Inr versions),
      ExtractCephVersion = exampleExtract,
      HostTree = (\<lambda>w. Inr tree),
      OsdListNum = (\<lambda>w. Inr osds),
      MdsActiveOrStandbyReplay =
        (\<lambda>w fsName. if fsName \<in> set healthy then None else Some (New ''mds not active''))\<rparr>"

text \<open>The same cluster when no command can be run.\<close>

definition unreachableCluster :: env where
  "unreachableCluster =
     (exampleCluster noVersions \<lparr>Nodes = None, Stray = []\<rparr> [] [])
       \<lparr>Run := (\<lambda>w args. ([], Some (New ''timed out''))),
        HostTree := (\<lambda>w. Inl (New ''timed out'')),
        OsdListNum := (\<lambda>w. Inl (New ''timed out''))\<rparr>"

section \<open>Properties\<close>

subsection \<open>Auxiliary facts\<close>

lemma sdiv_delay_range:
  fixes k :: int
  assumes "- (2 ^ 63) \<le> k" "k < 2 ^ 63"
  shows "- (2 ^ 63) \<le> k sdiv 10000000000 \<and> k sdiv 10000000000 < 2 ^ 63"
proof (cases "0 \<le> k")
  case True
  then have "k sdiv 10000000000 = k div 10000000000"
    by (simp add: signed_divide_int_def sgn_if)
  moreover have "0 \<le> k div 10000000000" "k div 10000000000 \<le> k"
    using True zdiv_mono2 [of k 1 10000000000] by (simp_all add: pos_imp_zdiv_nonneg_iff)
  ultimately show ?thesis using assms by simp
next
  case False
  then have "k sdiv 10000000000 = - ((- k) div 10000000000)"
    by (simp add: signed_divide_int_def sgn_if)
  moreover have "0 \<le> (- k) div 10000000000" "(- k) div 10000000000 \<le> - k"
    using False zdiv_mono2 [of "- k" 1 10000000000] by (simp_all add: pos_imp_zdiv_nonneg_iff)
  ultimately show ?thesis using assms by simp
qed

lemma sint_div_int64_delay:
  "sint (div_int64 a defaultOSDRetryDelay) = sint a sdiv 10000000000"
proof -
  have d: "sint defaultOSDRetryDelay = 10000000000"
    by (simp add: defaultOSDRetryDelay_def Second_def)
  have "- (2 ^ 63) \<le> sint a" "sint a < 2 ^ 63"
    using sint_ge [of a] sint_lt [of a] by simp_all
  then have r: "- (2 ^ 63) \<le> sint a sdiv 10000000000 \<and> sint a sdiv 10000000000 < 2 ^ 63"
    by (rule sdiv_delay_range)
  have "sint (word_of_int (sint a sdiv 10000000000) :: 64 word) = sint a sdiv 10000000000"
    using r by (simp add: sint_sbintrunc' signed_take_bit_int_eq_self)
  then show ?thesis by (simp add: div_int64_def d)
qed

lemmas fetch_defs =
  GetAllCephDaemonVersions_def getAllCephDaemonVersionsString_def run_def exampleCluster_def

lemma GetAllCephDaemonVersions_world:
  "snd (GetAllCephDaemonVersions E w) = w @ [Command [''versions'']]"
  by (simp add: GetAllCephDaemonVersions_def getAllCephDaemonVersionsString_def run_def
      split: prod.splits option.splits sum.splits)

lemma GetAllCephDaemonVersions_pair:
  "GetAllCephDaemonVersions E w =
     (fst (GetAllCephDaemonVersions E w), w @ [Command [''versions'']])"
  using GetAllCephDaemonVersions_world [of E w] by (metis prod.collapse)

lemma StringInSlice_set: "StringInSlice a list \<longleftrightarrow> a \<in> set list"
  by (induction list) auto

lemma okToStopDaemon_no_check:
  "daemonType \<in> set daemonNoCheck \<Longrightarrow>
   okToStopDaemon E deployment daemonType daemonName w = (None, w)"
  by (simp add: okToStopDaemon_def StringInSlice_set)

lemma okToStopDaemon_check:
  "daemonType \<notin> set daemonNoCheck \<Longrightarrow>
   snd (okToStopDaemon E deployment daemonType daemonName w) =
     w @ [Command [daemonType, ''ok-to-stop'', daemonName]]"
  by (simp add: okToStopDaemon_def StringInSlice_set run_def split: prod.splits option.splits)

lemma retryLoop_first_success:
  "f w = (None, w') \<Longrightarrow> retryLoop n delay f w = (None, w')"
  by (cases n) simp_all

lemma retryLoop_extends:
  assumes "\<And>w. \<exists>xs. snd (f w) = w @ xs"
  shows "\<exists>rest. snd (retryLoop n delay f w) = snd (f w) @ rest"
proof (induction n arbitrary: w)
  case 0
  show ?case by simp
next
  case (Suc n)
  obtain r w' where fw: "f w = (r, w')" by (cases "f w")
  show ?case
  proof (cases r)
    case None
    with fw show ?thesis by simp
  next
    case (Some err)
    obtain rest where "snd (retryLoop n delay f (sleep delay w')) = snd (f (sleep delay w')) @ rest"
      using Suc.IH by blast
    moreover obtain xs where "snd (f (sleep delay w')) = sleep delay w' @ xs"
      using assms by blast
    ultimately show ?thesis using fw Some by (simp add: sleep_def)
  qed
qed

lemma retryLoop_calls:
  assumes "\<And>w. \<exists>xs. snd (f w) = w @ xs \<and> set xs \<subseteq> A"
  shows "\<exists>xs. snd (retryLoop n delay f w) = w @ xs \<and> set xs \<subseteq> insert (Sleep delay) A"
proof (induction n arbitrary: w)
  case 0
  show ?case using assms [of w] by auto
next
  case (Suc n)
  obtain r w' where fw: "f w = (r, w')" by (cases "f w")
  obtain xs where xs: "w' = w @ xs" "set xs \<subseteq> A" using assms [of w] fw by auto
  show ?case
  proof (cases r)
    case None
    with fw xs show ?thesis by auto
  next
    case (Some err)
    obtain ys where "snd (retryLoop n delay f (sleep delay w')) = sleep delay w' @ ys"
      "set ys \<subseteq> insert (Sleep delay) A"
      using Suc.IH by blast
    then have "snd (retryLoop n delay f (sleep delay w')) = w @ (xs @ Sleep delay # ys)"
      "set (xs @ Sleep delay # ys) \<subseteq> insert (Sleep delay) A"
      using xs by (auto simp: sleep_def)
    then show ?thesis using fw Some by (simp del: append_assoc)
  qed
qed

lemma okToStopRetry_probes_first:
  assumes "daemonType \<notin> set daemonNoCheck"
  shows "\<exists>rest. snd (okToStopRetry E r d deployment daemonType daemonName w) =
           w @ Command [daemonType, ''ok-to-stop'', daemonName] # rest"
proof -
  let ?f = "okToStopDaemon E deployment daemonType daemonName"
  have ext: "\<exists>xs. snd (?f w) = w @ xs" for w
    using okToStopDaemon_check [OF assms] by simp
  obtain rest where "snd (retryLoop (nat (sint r) - 1) d ?f w) = snd (?f w) @ rest"
    using retryLoop_extends [of ?f, OF ext] by blast
  then have "snd (Retry r d ?f w) = w @ Command [daemonType, ''ok-to-stop'', daemonName] # rest"
    by (simp add: Retry_def okToStopDaemon_check [OF assms])
  then show ?thesis
    by (auto simp: okToStopRetry_def split: prod.splits option.splits)
qed

lemma elems_appendHosts:
  "elems (appendHosts ts acc) = elems acc @ filter (\<lambda>t. Type t = ''host'') ts"
  by (induction ts arbitrary: acc) simp_all

lemma retryLoop_failing_from:
  assumes fail: "\<And>xs. fst (f (w @ xs)) \<noteq> None"
    and ext: "\<And>w. \<exists>xs. snd (f w) = w @ xs"
  shows "fst (retryLoop n delay f (w @ ys)) \<noteq> None"
proof (induction n arbitrary: ys)
  case 0
  show ?case using fail by simp
next
  case (Suc n)
  obtain r w' where fw: "f (w @ ys) = (r, w')" by (cases "f (w @ ys)")
  with fail [of ys] obtain err where r: "r = Some err" by auto
  obtain xs where "w' = (w @ ys) @ xs" using ext [of "w @ ys"] fw by auto
  then have "sleep delay w' = w @ (ys @ xs @ [Sleep delay])" by (simp add: sleep_def)
  with Suc.IH [of "ys @ xs @ [Sleep delay]"] fw r show ?case by simp
qed

lemma findFSName_prefix: "findFSName (''rook-ceph-mds-'' @ fsName) = fsName"
  by (simp add: findFSName_def)

lemma versions_differ: "mimicVersion \<noteq> nautilusVersion"
  by (simp add: mimicVersion_def nautilusVersion_def)

text \<open>Where the lookup resolves to an empty mapping, the loop body does not run.\<close>

lemma LeastUptodateDaemonVersion_resolved_empty:
  assumes "fst (GetAllCephDaemonVersions E w) = Inr versions"
    and "daemonMapEntry versions daemonType = Inr []"
  shows "LeastUptodateDaemonVersion E daemonType w =
           (Inr zeroCephVersion, w @ [Command [''versions'']])"
proof -
  have "GetAllCephDaemonVersions E w = (Inr versions, w @ [Command [''versions'']])"
    using assms(1) GetAllCephDaemonVersions_pair [of E w] by simp
  then show ?thesis using assms(2) by (simp add: LeastUptodateDaemonVersion_def)
qed

subsection \<open>Retry policy\<close>

text \<open>
  C9. \<^verbatim>\<open>getRetryConfig\<close> is a total function with no error result. For \<open>osd\<close> it gives
  the configured OSD upgrade timeout divided by 10 seconds (the signed quotient truncated
  towards zero, which always fits 64 bits) with a delay of 10 seconds, so a timeout of 120
  seconds gives 12 attempts; for \<open>mds\<close> it gives 10 attempts with a delay of 15 seconds;
  for every other daemon type 10 attempts with a delay of 60 seconds.
\<close>

theorem getRetryConfig_policy:
  "getRetryConfig clusterInfo daemonType =
     (if daemonType = ''osd'' then
        (div_int64 (OsdUpgradeTimeout clusterInfo) (10 * Second), 10 * Second)
      else if daemonType = ''mds'' then (10, 15 * Second)
      else (10, 60 * Second))
   \<and> sint (fst (getRetryConfig clusterInfo ''osd'')) =
       sint (OsdUpgradeTimeout clusterInfo) sdiv 10000000000
   \<and> getRetryConfig \<lparr>OsdUpgradeTimeout = 120 * Second\<rparr> ''osd'' = (12, 10 * Second)"
proof -
  have "sint (fst (getRetryConfig clusterInfo ''osd'')) =
      sint (OsdUpgradeTimeout clusterInfo) sdiv 10000000000"
    by (simp add: getRetryConfig_def sint_div_int64_delay)
  moreover have "getRetryConfig \<lparr>OsdUpgradeTimeout = 120 * Second\<rparr> ''osd'' = (12, 10 * Second)"
    by (simp add: getRetryConfig_def div_int64_def defaultOSDRetryDelay_def Second_def)
  ultimately show ?thesis
    by (simp add: getRetryConfig_def defaultMaxRetries_def defaultRetryDelay_def
        defaultOSDRetryDelay_def)
qed

subsection \<open>Stopping a daemon\<close>

text \<open>
  C6. When fetching the version inventory fails, \<^verbatim>\<open>OkToStop\<close> returns that error
  wrapped, for every daemon type and instance, and the only call it has made is the
  \<^verbatim>\<open>ceph versions\<close> command: no OSD query of the pre-filter, no sleep of the retry
  loop and no \<^verbatim>\<open>ok-to-stop\<close> command.
\<close>

theorem OkToStop_inventory_failure:
  assumes "fst (GetAllCephDaemonVersions E w) = Inl err"
  shows "OkToStop E clusterInfo deployment daemonType daemonName w =
           (Some (Wrap err ''failed to get ceph daemons versions''), w @ [Command [''versions'']])"
proof -
  have "GetAllCephDaemonVersions E w = (Inl err, w @ [Command [''versions'']])"
    using assms GetAllCephDaemonVersions_pair [of E w] by simp
  then show ?thesis by (simp add: OkToStop_def split: prod.splits)
qed

theorem OkToStop_inventory_failure_witness:
  "fst (GetAllCephDaemonVersions unreachableCluster []) =
     Inl (Wrap (New ''timed out'') ''failed to run 'ceph versions'. '')
   \<and> OkToStop unreachableCluster \<lparr>OsdUpgradeTimeout = 120 * Second\<rparr>
       ''rook-ceph-osd-0'' ''osd'' ''0'' [] =
       (Some (Wrap (Wrap (New ''timed out'') ''failed to run 'ceph versions'. '')
                ''failed to get ceph daemons versions''),
        [Command [''versions'']])"
proof -
  have h: "fst (GetAllCephDaemonVersions unreachableCluster []) =
      Inl (Wrap (New ''timed out'') ''failed to run 'ceph versions'. '')"
    by (simp add: GetAllCephDaemonVersions_def getAllCephDaemonVersionsString_def run_def
        unreachableCluster_def exampleCluster_def)
  show ?thesis
    using h OkToStop_inventory_failure [OF h, of "\<lparr>OsdUpgradeTimeout = 120 * Second\<rparr>"
        "''rook-ceph-osd-0''" "''osd''" "''0''"]
    by simp
qed

text \<open>
  C5. For the daemon types \<open>mgr\<close>, \<open>rgw\<close>, \<open>rbd-mirror\<close> and \<open>nfs\<close>, the only call
  \<^verbatim>\<open>OkToStop\<close> makes is the \<^verbatim>\<open>ceph versions\<close> command, so it never issues the
  \<^verbatim>\<open>ok-to-stop\<close> command of the instance; it returns nil when the inventory was fetched
  and the wrapped error of the fetch otherwise.
\<close>

theorem OkToStop_no_check:
  assumes "daemonType \<in> {''mgr'', ''rgw'', ''rbd-mirror'', ''nfs''}"
  shows "snd (OkToStop E clusterInfo deployment daemonType daemonName w) =
           w @ [Command [''versions'']]
       \<and> Command [daemonType, ''ok-to-stop'', daemonName] \<notin>
           set (drop (length w) (snd (OkToStop E clusterInfo deployment daemonType daemonName w)))
       \<and> fst (OkToStop E clusterInfo deployment daemonType daemonName w) =
           (case fst (GetAllCephDaemonVersions E w) of
              Inl err \<Rightarrow> Some (Wrap err ''failed to get ceph daemons versions'')
            | Inr versions \<Rightarrow> None)"
proof -
  have nc: "daemonType \<in> set daemonNoCheck"
    using assms by (simp add: daemonNoCheck_def)
  have ne: "daemonType \<noteq> ''mon''" "daemonType \<noteq> ''osd''" "daemonType \<noteq> ''versions''"
    using assms by auto
  have retry: "okToStopRetry E r d deployment daemonType daemonName w' = (None, w')" for r d w'
    by (simp add: okToStopRetry_def Retry_def
        retryLoop_first_success [OF okToStopDaemon_no_check [OF nc]])
  have eq: "OkToStop E clusterInfo deployment daemonType daemonName w =
      (case fst (GetAllCephDaemonVersions E w) of
         Inl err \<Rightarrow> Some (Wrap err ''failed to get ceph daemons versions'')
       | Inr versions \<Rightarrow> None, w @ [Command [''versions'']])"
    using ne GetAllCephDaemonVersions_pair [of E w]
    by (cases "fst (GetAllCephDaemonVersions E w)")
       (simp_all add: OkToStop_def retry split: prod.splits)
  show ?thesis using ne by (simp add: eq)
qed

theorem OkToStop_no_check_witness:
  "''rbd-mirror'' \<in> {''mgr'', ''rgw'', ''rbd-mirror'', ''nfs''}
   \<and> OkToStop (exampleCluster noVersions \<lparr>Nodes = None, Stray = []\<rparr> [] [])
       \<lparr>OsdUpgradeTimeout = 120 * Second\<rparr> ''rook-ceph-rbd-mirror-a'' ''rbd-mirror'' ''a'' [] =
       (None, [Command [''versions'']])"
proof -
  have h: "''rbd-mirror'' \<in> {''mgr'', ''rgw'', ''rbd-mirror'', ''nfs''}" by simp
  have f: "fst (GetAllCephDaemonVersions
      (exampleCluster noVersions \<lparr>Nodes = None, Stray = []\<rparr> [] []) []) = Inr noVersions"
    by (simp add: GetAllCephDaemonVersions_def getAllCephDaemonVersionsString_def run_def
        exampleCluster_def)
  show ?thesis
    using h OkToStop_no_check [OF h,
        of "exampleCluster noVersions \<lparr>Nodes = None, Stray = []\<rparr> [] []"
        "\<lparr>OsdUpgradeTimeout = 120 * Second\<rparr>" "''rook-ceph-rbd-mirror-a''" "''a''" "[]"]
    by (simp add: f prod_eq_iff)
qed

text \<open>
  C3. For the daemon type \<open>mon\<close> and an inventory that was fetched: when the mon mapping
  has exactly one version key and the count behind it is below 3, \<^verbatim>\<open>OkToStop\<close> returns
  nil and has made no call but the \<^verbatim>\<open>ceph versions\<close> command (no sleep, no
  \<^verbatim>\<open>ok-to-stop\<close> command); when the mapping has more than one key, or its single key
  has a count of 3 or more, the result is that of the retry loop around the probe, with
  the default policy of 10 attempts and 60 seconds, and the call that follows the
  inventory is the \<^verbatim>\<open>mon ok-to-stop\<close> command of the instance.
\<close>

theorem OkToStop_mon:
  assumes "fst (GetAllCephDaemonVersions E w) = Inr versions"
  shows "((\<exists>v monCount. Mon versions = [(v, monCount)] \<and> monCount < 3) \<longrightarrow>
            OkToStop E clusterInfo deployment ''mon'' daemonName w =
              (None, w @ [Command [''versions'']]))
       \<and> (1 < length (Mon versions) \<or> (\<exists>v monCount. Mon versions = [(v, monCount)] \<and> 3 \<le> monCount) \<longrightarrow>
            OkToStop E clusterInfo deployment ''mon'' daemonName w =
              okToStopRetry E 10 (60 * Second) deployment ''mon'' daemonName
                (w @ [Command [''versions'']])
            \<and> (\<exists>rest. snd (OkToStop E clusterInfo deployment ''mon'' daemonName w) =
                  w @ [Command [''versions''], Command [''mon'', ''ok-to-stop'', daemonName]] @ rest))"
proof -
  have g: "GetAllCephDaemonVersions E w = (Inr versions, w @ [Command [''versions'']])"
    using assms GetAllCephDaemonVersions_pair [of E w] by simp
  have cfg: "getRetryConfig clusterInfo ''mon'' = (10, 60 * Second)"
    by (simp add: getRetryConfig_def defaultMaxRetries_def defaultRetryDelay_def)
  have mon: "''mon'' \<notin> set daemonNoCheck" by (simp add: daemonNoCheck_def)
  have short: "OkToStop E clusterInfo deployment ''mon'' daemonName w =
      (None, w @ [Command [''versions'']])"
    if "\<exists>v monCount. Mon versions = [(v, monCount)] \<and> monCount < 3"
    using that by (auto simp: OkToStop_def g cfg)
  have probe: "OkToStop E clusterInfo deployment ''mon'' daemonName w =
      okToStopRetry E 10 (60 * Second) deployment ''mon'' daemonName (w @ [Command [''versions'']])"
    if "1 < length (Mon versions) \<or> (\<exists>v monCount. Mon versions = [(v, monCount)] \<and> 3 \<le> monCount)"
    using that by (auto simp: OkToStop_def g cfg)
  show ?thesis
    using short probe
      okToStopRetry_probes_first [OF mon, of E 10 "60 * Second" deployment daemonName
        "w @ [Command [''versions'']]"]
    by auto
qed

theorem OkToStop_mon_witness:
  "OkToStop (exampleCluster (noVersions\<lparr>Mon := [(nautilusVersion, 1)]\<rparr>)
       \<lparr>Nodes = None, Stray = []\<rparr> [] [])
     \<lparr>OsdUpgradeTimeout = 120 * Second\<rparr> ''rook-ceph-mon-a'' ''mon'' ''a'' [] =
     (None, [Command [''versions'']])
   \<and> OkToStop (exampleCluster (noVersions\<lparr>Mon := [(nautilusVersion, 3)]\<rparr>)
       \<lparr>Nodes = None, Stray = []\<rparr> [] [])
     \<lparr>OsdUpgradeTimeout = 120 * Second\<rparr> ''rook-ceph-mon-a'' ''mon'' ''a'' [] =
     (None, [Command [''versions''], Command [''mon'', ''ok-to-stop'', ''a'']])
   \<and> OkToStop (exampleCluster (noVersions\<lparr>Mon := [(mimicVersion, 1), (nautilusVersion, 1)]\<rparr>)
       \<lparr>Nodes = None, Stray = []\<rparr> [] [])
     \<lparr>OsdUpgradeTimeout = 120 * Second\<rparr> ''rook-ceph-mon-a'' ''mon'' ''a'' [] =
     (None, [Command [''versions''], Command [''mon'', ''ok-to-stop'', ''a'']])"
proof -
  let ?ci = "\<lparr>OsdUpgradeTimeout = 120 * Second\<rparr>"
  let ?v1 = "noVersions\<lparr>Mon := [(nautilusVersion, 1)]\<rparr>"
  let ?v3 = "noVersions\<lparr>Mon := [(nautilusVersion, 3)]\<rparr>"
  let ?v2 = "noVersions\<lparr>Mon := [(mimicVersion, 1), (nautilusVersion, 1)]\<rparr>"
  have h: "fst (GetAllCephDaemonVersions
      (exampleCluster versions \<lparr>Nodes = None, Stray = []\<rparr> [] []) []) = Inr versions"
    for versions
    by (simp add: fetch_defs)
  have p: "okToStopRetry (exampleCluster versions \<lparr>Nodes = None, Stray = []\<rparr> [] [])
      10 (60 * Second) ''rook-ceph-mon-a'' ''mon'' ''a'' [Command [''versions'']] =
      (None, [Command [''versions''], Command [''mon'', ''ok-to-stop'', ''a'']])"
    for versions
    by (simp add: okToStopRetry_def Retry_def okToStopDaemon_def daemonNoCheck_def run_def
        exampleCluster_def retryLoop_first_success)
  show ?thesis
    using OkToStop_mon [OF h, of ?v1 ?ci "''rook-ceph-mon-a''" "''a''"]
      OkToStop_mon [OF h, of ?v3 ?ci "''rook-ceph-mon-a''" "''a''"]
      OkToStop_mon [OF h, of ?v2 ?ci "''rook-ceph-mon-a''" "''a''"]
    by (simp add: p)
qed

subsection \<open>The OSD pre-filter\<close>

text \<open>
  C4. \<^verbatim>\<open>osdDoNothing\<close> returns true exactly when the OSD list could be read and either
  has fewer than 3 entries, or has at least 3 and \<^verbatim>\<open>allOSDsSameHost\<close>, called next,
  succeeds with true. When the OSD list cannot be read it returns false.
\<close>

theorem osdDoNothing_iff:
  "(fst (osdDoNothing E w) \<longleftrightarrow>
      (\<exists>osds. OsdListNum E w = Inr osds \<and>
         (length osds < 3 \<or>
          3 \<le> length osds \<and> fst (allOSDsSameHost E (w @ [OsdListNumCall])) = Inr True)))
   \<and> ((\<exists>err. OsdListNum E w = Inl err) \<longrightarrow> \<not> fst (osdDoNothing E w))"
  by (cases "OsdListNum E w")
     (auto simp: osdDoNothing_def osdListNum_def split: prod.splits sum.splits)

theorem osdDoNothing_iff_witness:
  "OsdListNum unreachableCluster [] = Inl (New ''timed out'')
   \<and> \<not> fst (osdDoNothing unreachableCluster [])
   \<and> fst (osdDoNothing (exampleCluster noVersions \<lparr>Nodes = None, Stray = []\<rparr> [0, 1] []) [])
   \<and> fst (osdDoNothing
        (exampleCluster noVersions
           \<lparr>Nodes = Some [\<lparr>Type = ''host'', Children = [0, 1, 2]\<rparr>], Stray = []\<rparr>
           [0, 1, 2] []) [])
   \<and> \<not> fst (osdDoNothing
        (exampleCluster noVersions
           \<lparr>Nodes = Some [\<lparr>Type = ''host'', Children = [0, 1]\<rparr>,
                          \<lparr>Type = ''host'', Children = [2]\<rparr>], Stray = []\<rparr>
           [0, 1, 2] []) [])"
proof -
  let ?t1 = "\<lparr>Nodes = Some [\<lparr>Type = ''host'', Children = [0, 1, 2]\<rparr>], Stray = []\<rparr>"
  let ?t2 = "\<lparr>Nodes = Some [\<lparr>Type = ''host'', Children = [0, 1]\<rparr>,
                          \<lparr>Type = ''host'', Children = [2]\<rparr>], Stray = []\<rparr>"
  have h: "OsdListNum unreachableCluster [] = Inl (New ''timed out'')"
    by (simp add: unreachableCluster_def exampleCluster_def)
  have k: "OsdListNum (exampleCluster noVersions t osds []) w = Inr osds" for t osds w
    by (simp add: exampleCluster_def)
  have a1: "fst (allOSDsSameHost (exampleCluster noVersions ?t1 [0, 1, 2] []) [OsdListNumCall]) =
      Inr True"
    by (simp add: allOSDsSameHost_def hostTree_def osdListNum_def buildHostListFromTree_def
        exampleCluster_def)
  have a2: "fst (allOSDsSameHost (exampleCluster noVersions ?t2 [0, 1, 2] []) [OsdListNumCall]) =
      Inr False"
    by (simp add: allOSDsSameHost_def hostTree_def osdListNum_def buildHostListFromTree_def
        exampleCluster_def)
  show ?thesis
    using h osdDoNothing_iff [of unreachableCluster "[]"]
      osdDoNothing_iff [of "exampleCluster noVersions \<lparr>Nodes = None, Stray = []\<rparr> [0, 1] []" "[]"]
      osdDoNothing_iff [of "exampleCluster noVersions ?t1 [0, 1, 2] []" "[]"]
      osdDoNothing_iff [of "exampleCluster noVersions ?t2 [0, 1, 2] []" "[]"]
    by (simp add: k a1 a2)
qed

text \<open>
  C7. When the OSD tree and the OSD list can be read, \<^verbatim>\<open>allOSDsSameHost\<close> returns true
  exactly when the tree has exactly one node of type \<open>host\<close> and the number of children
  of that node equals the number of OSDs minus the number of strays. With no node of type
  \<open>host\<close> it fails: with the error of \<^verbatim>\<open>buildHostListFromTree\<close> when the tree has no
  \<^verbatim>\<open>nodes\<close> field at all, with \<open>no host in crush map yet?\<close> otherwise. With at least
  one node of type \<open>host\<close> it does not fail, and with more than one it returns false.
\<close>

theorem allOSDsSameHost_result:
  assumes "HostTree E w = Inr tree" and "OsdListNum E (w @ [HostTreeCall]) = Inr osds"
  shows "(fst (allOSDsSameHost E w) = Inr True \<longleftrightarrow>
            (\<exists>h. filter (\<lambda>t. Type t = ''host'') (elems (Nodes tree)) = [h] \<and>
                 int (length (Children h)) = int (length osds) - int (length (Stray tree))))
       \<and> (filter (\<lambda>t. Type t = ''host'') (elems (Nodes tree)) = [] \<longrightarrow>
            fst (allOSDsSameHost E w) =
              (if Nodes tree = None
               then Inl (Wrap (New ''osd tree not populated, missing 'nodes' field'')
                          ''failed to build osd tree'')
               else Inl (New ''no host in crush map yet?'')))
       \<and> (filter (\<lambda>t. Type t = ''host'') (elems (Nodes tree)) \<noteq> [] \<longrightarrow>
            (\<exists>aio. fst (allOSDsSameHost E w) = Inr aio))
       \<and> (1 < length (filter (\<lambda>t. Type t = ''host'') (elems (Nodes tree))) \<longrightarrow>
            fst (allOSDsSameHost E w) = Inr False)"
proof (cases "Nodes tree")
  case None
  then show ?thesis
    using assms by (simp add: allOSDsSameHost_def hostTree_def osdListNum_def buildHostListFromTree_def)
next
  case (Some nodes)
  let ?hosts = "filter (\<lambda>t. Type t = ''host'') nodes"
  have r: "fst (allOSDsSameHost E w) =
      (if length ?hosts = 0 then Inl (New ''no host in crush map yet?'')
       else if length ?hosts = 1 \<and>
               int (length (Children (?hosts ! 0))) = int (length osds) - int (length (Stray tree))
       then Inr True else Inr False)"
    using assms Some
    by (simp add: allOSDsSameHost_def hostTree_def osdListNum_def buildHostListFromTree_def
        elems_appendHosts Let_def)
  have one: "length ?hosts = 1 \<longleftrightarrow> (\<exists>h. ?hosts = [h])"
    by (cases ?hosts) auto
  show ?thesis
    unfolding r using Some one by (cases ?hosts) (auto split: if_splits)
qed

theorem allOSDsSameHost_result_witness:
  "fst (allOSDsSameHost
      (exampleCluster noVersions
         \<lparr>Nodes = Some [\<lparr>Type = ''root'', Children = [-1]\<rparr>,
                        \<lparr>Type = ''host'', Children = [0, 1, 2]\<rparr>], Stray = [3]\<rparr>
         [0, 1, 2, 3] []) []) = Inr True
   \<and> fst (allOSDsSameHost
      (exampleCluster noVersions
         \<lparr>Nodes = Some [\<lparr>Type = ''host'', Children = [0, 1, 2]\<rparr>], Stray = []\<rparr>
         [0, 1, 2, 3] []) []) = Inr False
   \<and> fst (allOSDsSameHost
      (exampleCluster noVersions \<lparr>Nodes = Some [\<lparr>Type = ''root'', Children = []\<rparr>], Stray = []\<rparr>
         [0] []) []) = Inl (New ''no host in crush map yet?'')
   \<and> fst (allOSDsSameHost
      (exampleCluster noVersions \<lparr>Nodes = None, Stray = []\<rparr> [0] []) []) =
      Inl (Wrap (New ''osd tree not populated, missing 'nodes' field'')
             ''failed to build osd tree'')
   \<and> fst (allOSDsSameHost
      (exampleCluster noVersions
         \<lparr>Nodes = Some [\<lparr>Type = ''host'', Children = [0]\<rparr>,
                        \<lparr>Type = ''host'', Children = [1]\<rparr>], Stray = []\<rparr>
         [0, 1] []) []) = Inr False"
proof -
  let ?t1 = "\<lparr>Nodes = Some [\<lparr>Type = ''root'', Children = [-1]\<rparr>,
                        \<lparr>Type = ''host'', Children = [0, 1, 2]\<rparr>], Stray = [3]\<rparr>"
  let ?t3 = "\<lparr>Nodes = Some [\<lparr>Type = ''host'', Children = [0, 1, 2]\<rparr>], Stray = []\<rparr>"
  let ?t0 = "\<lparr>Nodes = Some [\<lparr>Type = ''root'', Children = []\<rparr>], Stray = []\<rparr>"
  let ?tn = "\<lparr>Nodes = None, Stray = []\<rparr>"
  let ?t2 = "\<lparr>Nodes = Some [\<lparr>Type = ''host'', Children = [0]\<rparr>,
                        \<lparr>Type = ''host'', Children = [1]\<rparr>], Stray = []\<rparr>"
  have a: "HostTree (exampleCluster noVersions t osds []) w = Inr t"
    "OsdListNum (exampleCluster noVersions t osds []) w = Inr osds" for t osds w
    by (simp_all add: exampleCluster_def)
  show ?thesis
    using allOSDsSameHost_result [OF a(1) a(2), of ?t1 "[0, 1, 2, 3]" "[]"]
      allOSDsSameHost_result [OF a(1) a(2), of ?t3 "[0, 1, 2, 3]" "[]"]
      allOSDsSameHost_result [OF a(1) a(2), of ?t0 "[0]" "[]"]
      allOSDsSameHost_result [OF a(1) a(2), of ?tn "[0]" "[]"]
      allOSDsSameHost_result [OF a(1) a(2), of ?t2 "[0, 1]" "[]"]
    by auto
qed

subsection \<open>Continuing after a daemon\<close>

text \<open>
  C8. For every daemon type other than \<open>mds\<close>, \<^verbatim>\<open>OkToContinue\<close> returns nil and makes
  no call. For \<open>mds\<close> its result is that of the retry loop with the mds policy (10
  attempts, 15 seconds) around the filesystem probe, an error being wrapped in a message
  that names the deployment; the filesystem name is the deployment name without the
  prefix \<open>rook-ceph-mds-\<close>; the calls it makes begin with a probe of that filesystem and
  are all probes of that filesystem or sleeps of 15 seconds; and when the probe reports
  the filesystem unhealthy whenever it is asked from now on, the result is such a wrapped
  error.
\<close>

theorem OkToContinue_mds:
  "(daemonType \<noteq> ''mds'' \<longrightarrow>
      OkToContinue E clusterInfo deployment daemonType daemonName w = (None, w))
   \<and> OkToContinue E clusterInfo deployment ''mds'' daemonName w =
       (case Retry 10 (15 * Second) (mdsActiveOrStandbyReplay E (findFSName deployment)) w of
          (Some err, w') \<Rightarrow>
            (Some (Wrap err (''failed to check if '' @ deployment @ '' was ok to continue'')), w')
        | (None, w') \<Rightarrow> (None, w'))
   \<and> findFSName (''rook-ceph-mds-'' @ fsName) = fsName
   \<and> (\<exists>calls. snd (OkToContinue E clusterInfo deployment ''mds'' daemonName w) =
          w @ MdsActiveOrStandbyReplayCall (findFSName deployment) # calls
        \<and> set calls \<subseteq> {MdsActiveOrStandbyReplayCall (findFSName deployment), Sleep (15 * Second)})
   \<and> ((\<forall>calls. MdsActiveOrStandbyReplay E (w @ calls) (findFSName deployment) \<noteq> None) \<longrightarrow>
        (\<exists>err. fst (OkToContinue E clusterInfo deployment ''mds'' daemonName w) =
           Some (Wrap err (''failed to check if '' @ deployment @ '' was ok to continue''))))"
proof -
  let ?fs = "findFSName deployment"
  let ?f = "mdsActiveOrStandbyReplay E ?fs"
  let ?R = "Retry 10 (15 * Second) ?f w"
  have eq: "OkToContinue E clusterInfo deployment ''mds'' daemonName w =
      (case ?R of
         (Some err, w') \<Rightarrow>
           (Some (Wrap err (''failed to check if '' @ deployment @ '' was ok to continue'')), w')
       | (None, w') \<Rightarrow> (None, w'))"
    by (simp add: OkToContinue_def okToContinueMDSDaemon_def getRetryConfig_def
        defaultMaxRetries_def)
  have snd_eq: "snd (OkToContinue E clusterInfo deployment ''mds'' daemonName w) = snd ?R"
    unfolding eq by (simp split: prod.splits option.splits)
  have step: "\<exists>xs. snd (?f w) = w @ xs \<and> set xs \<subseteq> {MdsActiveOrStandbyReplayCall ?fs}" for w
    by (simp add: mdsActiveOrStandbyReplay_def)
  then have ext: "\<exists>xs. snd (?f w) = w @ xs" for w by blast
  obtain xs where xs: "snd ?R = w @ xs"
    "set xs \<subseteq> {Sleep (15 * Second), MdsActiveOrStandbyReplayCall ?fs}"
    using retryLoop_calls [of ?f "{MdsActiveOrStandbyReplayCall ?fs}", OF step]
    unfolding Retry_def by blast
  obtain rest where "snd ?R = snd (?f w) @ rest"
    using retryLoop_extends [of ?f, OF ext] unfolding Retry_def by blast
  then have rest: "snd ?R = w @ MdsActiveOrStandbyReplayCall ?fs # rest"
    by (simp add: mdsActiveOrStandbyReplay_def)
  with xs have "set rest \<subseteq> {MdsActiveOrStandbyReplayCall ?fs, Sleep (15 * Second)}" by auto
  with rest snd_eq have calls:
    "\<exists>calls. snd (OkToContinue E clusterInfo deployment ''mds'' daemonName w) =
        w @ MdsActiveOrStandbyReplayCall ?fs # calls
      \<and> set calls \<subseteq> {MdsActiveOrStandbyReplayCall ?fs, Sleep (15 * Second)}"
    by simp
  have unhealthy: "(\<forall>calls. MdsActiveOrStandbyReplay E (w @ calls) ?fs \<noteq> None) \<longrightarrow>
      (\<exists>err. fst (OkToContinue E clusterInfo deployment ''mds'' daemonName w) =
         Some (Wrap err (''failed to check if '' @ deployment @ '' was ok to continue'')))"
  proof
    assume a: "\<forall>calls. MdsActiveOrStandbyReplay E (w @ calls) ?fs \<noteq> None"
    have "fst (?f (w @ xs)) \<noteq> None" for xs
      using a by (simp add: mdsActiveOrStandbyReplay_def)
    then have "fst (retryLoop (nat (sint (10 :: 64 word)) - 1) (15 * Second) ?f (w @ [])) \<noteq> None"
      using ext by (rule retryLoop_failing_from)
    then have "fst ?R \<noteq> None" by (simp add: Retry_def)
    then show "\<exists>err. fst (OkToContinue E clusterInfo deployment ''mds'' daemonName w) =
        Some (Wrap err (''failed to check if '' @ deployment @ '' was ok to continue''))"
      unfolding eq by (auto split: prod.splits option.splits)
  qed
  have other: "daemonType \<noteq> ''mds'' \<longrightarrow>
      OkToContinue E clusterInfo deployment daemonType daemonName w = (None, w)"
    by (simp add: OkToContinue_def)
  show ?thesis
    by (intro conjI) (rule other eq findFSName_prefix calls unhealthy)+
qed

theorem OkToContinue_mds_witness:
  "OkToContinue (exampleCluster noVersions \<lparr>Nodes = None, Stray = []\<rparr> [] [])
     \<lparr>OsdUpgradeTimeout = 120 * Second\<rparr> ''rook-ceph-osd-0'' ''osd'' ''0'' [] = (None, [])
   \<and> fst (OkToContinue (exampleCluster noVersions \<lparr>Nodes = None, Stray = []\<rparr> [] [])
         \<lparr>OsdUpgradeTimeout = 120 * Second\<rparr> ''rook-ceph-mds-myfs-a'' ''mds'' ''myfs-a'' []) =
       Some (Wrap (New ''mds not active'')
               ''failed to check if rook-ceph-mds-myfs-a was ok to continue'')"
proof -
  let ?E = "exampleCluster noVersions \<lparr>Nodes = None, Stray = []\<rparr> [] []"
  let ?ci = "\<lparr>OsdUpgradeTimeout = 120 * Second\<rparr>"
  have h: "\<forall>calls. MdsActiveOrStandbyReplay ?E ([] @ calls)
      (findFSName ''rook-ceph-mds-myfs-a'') \<noteq> None"
    by (simp add: exampleCluster_def)
  have n: "''osd'' \<noteq> ''mds''" by simp
  have o: "OkToContinue ?E ?ci ''rook-ceph-osd-0'' ''osd'' ''0'' [] = (None, [])"
    using n OkToContinue_mds [where daemonType = "''osd''" and E = ?E and clusterInfo = ?ci
        and deployment = "''rook-ceph-osd-0''" and daemonName = "''0''" and w = "[]"
        and fsName = "[]"]
    by blast
  have m: "\<exists>err. fst (OkToContinue ?E ?ci ''rook-ceph-mds-myfs-a'' ''mds'' ''myfs-a'' []) =
      Some (Wrap err (''failed to check if '' @ ''rook-ceph-mds-myfs-a'' @ '' was ok to continue''))"
    using h OkToContinue_mds [where daemonType = "''mds''" and E = ?E and clusterInfo = ?ci
        and deployment = "''rook-ceph-mds-myfs-a''" and daemonName = "''myfs-a''" and w = "[]"
        and fsName = "[]"]
    by blast
  have "fst (OkToContinue ?E ?ci ''rook-ceph-mds-myfs-a'' ''mds'' ''myfs-a'' []) =
      Some (Wrap (New ''mds not active'')
              ''failed to check if rook-ceph-mds-myfs-a was ok to continue'')"
    using m
    by (simp add: OkToContinue_def okToContinueMDSDaemon_def getRetryConfig_def
        defaultMaxRetries_def Retry_def eval_nat_numeral mdsActiveOrStandbyReplay_def
        exampleCluster_def findFSName_def sleep_def)
  with o show ?thesis by simp
qed

subsection \<open>The least up-to-date version\<close>

text \<open>
  C10. On a cluster whose inventory is fetched and has an empty mapping for every daemon
  type, \<^verbatim>\<open>LeastUptodateDaemonVersion\<close> returns the zero value of the version and no
  error for \<open>mon\<close>, \<open>mgr\<close>, \<open>mds\<close>, \<open>osd\<close> and \<open>rgw\<close>. For \<open>rbd-mirror\<close>, whose
  mapping is empty as well, it returns the error \<open>invalid daemonType rbd-mirror\<close>
  wrapped in \<open>failed to find daemon map entry\<close>, because the lookup knows that daemon
  as \<open>mirror\<close>.
\<close>

theorem LeastUptodateDaemonVersion_empty_rbd_mirror:
  "fst (GetAllCephDaemonVersions
          (exampleCluster noVersions \<lparr>Nodes = None, Stray = []\<rparr> [] []) []) = Inr noVersions
   \<and> RbdMirror noVersions = []
   \<and> LeastUptodateDaemonVersion
         (exampleCluster noVersions \<lparr>Nodes = None, Stray = []\<rparr> [] []) ''rbd-mirror'' [] =
       (Inl (Wrap (New ''invalid daemonType rbd-mirror'') ''failed to find daemon map entry''),
        [Command [''versions'']])
   \<and> list_all
         (\<lambda>daemonType.
            LeastUptodateDaemonVersion
              (exampleCluster noVersions \<lparr>Nodes = None, Stray = []\<rparr> [] []) daemonType [] =
            (Inr \<lparr>Major = 0, Minor = 0, Patch = 0, Codename = []\<rparr>, [Command [''versions'']]))
         [''mon'', ''mgr'', ''mds'', ''osd'', ''rgw'']"
proof -
  let ?E = "exampleCluster noVersions \<lparr>Nodes = None, Stray = []\<rparr> [] []"
  have f: "fst (GetAllCephDaemonVersions ?E []) = Inr noVersions"
    by (simp add: fetch_defs)
  have g: "GetAllCephDaemonVersions ?E [] = (Inr noVersions, [Command [''versions'']])"
    using f GetAllCephDaemonVersions_pair [of ?E "[]"] by simp
  have bad: "LeastUptodateDaemonVersion ?E ''rbd-mirror'' [] =
      (Inl (Wrap (New ''invalid daemonType rbd-mirror'') ''failed to find daemon map entry''),
       [Command [''versions'']])"
    by (simp add: LeastUptodateDaemonVersion_def g daemonMapEntry_def)
  have good: "LeastUptodateDaemonVersion ?E daemonType [] =
      (Inr \<lparr>Major = 0, Minor = 0, Patch = 0, Codename = []\<rparr>, [Command [''versions'']])"
    if "daemonMapEntry noVersions daemonType = Inr []" for daemonType
    using LeastUptodateDaemonVersion_resolved_empty [OF f that]
    by (simp add: zeroCephVersion_def)
  have "daemonMapEntry noVersions ''mon'' = Inr []" "daemonMapEntry noVersions ''mgr'' = Inr []"
    "daemonMapEntry noVersions ''mds'' = Inr []" "daemonMapEntry noVersions ''osd'' = Inr []"
    "daemonMapEntry noVersions ''rgw'' = Inr []"
    by (simp_all add: daemonMapEntry_def noVersions_def)
  then show ?thesis
    using f bad by (simp add: good) (simp add: noVersions_def)
qed

text \<open>
  C2. The version \<^verbatim>\<open>LeastUptodateDaemonVersion\<close> returns is the one of the entry the
  \<^verbatim>\<open>range\<close> statement enumerates first. On the inventory of the comment above the
  function, with the keys of 13.2.5 and of 14.2.0 under \<open>mon\<close>, a run that enumerates
  the key of 14.2.0 first returns 14.2.0 and a run that enumerates the key of 13.2.5 first
  returns 13.2.5, although both runs are on the same map.
\<close>

theorem LeastUptodateDaemonVersion_enumeration_order:
  "fst (LeastUptodateDaemonVersion
          (exampleCluster (noVersions\<lparr>Mon := [(nautilusVersion, 2), (mimicVersion, 1)]\<rparr>)
             \<lparr>Nodes = None, Stray = []\<rparr> [] []) ''mon'' []) =
     Inr \<lparr>Major = 14, Minor = 2, Patch = 0, Codename = ''nautilus''\<rparr>
   \<and> fst (LeastUptodateDaemonVersion
          (exampleCluster (noVersions\<lparr>Mon := [(mimicVersion, 1), (nautilusVersion, 2)]\<rparr>)
             \<lparr>Nodes = None, Stray = []\<rparr> [] []) ''mon'' []) =
     Inr \<lparr>Major = 13, Minor = 2, Patch = 5, Codename = ''mimic''\<rparr>
   \<and> map_of [(nautilusVersion, 2), (mimicVersion, 1 :: int)] =
     map_of [(mimicVersion, 1), (nautilusVersion, 2)]"
proof -
  have "map_of [(nautilusVersion, 2), (mimicVersion, 1 :: int)] =
      map_of [(mimicVersion, 1), (nautilusVersion, 2)]"
    using versions_differ by (auto simp: fun_eq_iff)
  then show ?thesis
    using versions_differ
    by (simp add: LeastUptodateDaemonVersion_def GetAllCephDaemonVersions_def
        getAllCephDaemonVersionsString_def run_def exampleCluster_def daemonMapEntry_def
        exampleExtract_def noVersions_def)
qed

text \<open>
  C1. The lookup of \<^verbatim>\<open>daemonMapEntry\<close> knows the mirror daemon under the name
  \<open>mirror\<close>. For the daemon type \<open>rbd-mirror\<close>, the name which the list
  \<^verbatim>\<open>daemonNoCheck\<close> of the same file uses, it fails with \<open>invalid daemonType\<close>, and
  so does \<^verbatim>\<open>LeastUptodateDaemonVersion\<close> on a cluster that runs such a daemon.
\<close>

theorem LeastUptodateDaemonVersion_rbd_mirror:
  "daemonMapEntry versions ''rbd-mirror'' = Inl (New ''invalid daemonType rbd-mirror'')
   \<and> daemonMapEntry versions ''mirror'' = Inr (RbdMirror versions)
   \<and> fst (LeastUptodateDaemonVersion
            (exampleCluster (noVersions\<lparr>RbdMirror := [(nautilusVersion, 1)]\<rparr>)
               \<lparr>Nodes = None, Stray = []\<rparr> [] []) ''rbd-mirror'' []) =
       Inl (Wrap (New ''invalid daemonType rbd-mirror'') ''failed to find daemon map entry'')
   \<and> StringInSlice ''rbd-mirror'' daemonNoCheck"
  by (simp add: LeastUptodateDaemonVersion_def GetAllCephDaemonVersions_def
      getAllCephDaemonVersionsString_def run_def exampleCluster_def daemonMapEntry_def
      daemonNoCheck_def)

end
